theory Spec2Isabelle
  imports Main "HOL-Library.AList"
begin

section \<open>Data model (bank.interface)\<close>

text \<open>
  The interfaces of the audit service. A JavaScript string is a \<^typ>\<open>string\<close>; characters
  outside ASCII are written as their UTF-8 bytes. Several interfaces have a field
  \<open>grade\<close> and two have a field \<open>headers\<close>: such fields carry the name of their
  interface in front. One datatype holds all grade letters (\<open>A+\<close> is \<open>A_plus\<close>).
\<close>

datatype grade = A_plus | A | B | C | D | F | UNKNOWN

datatype audit_status = completed | failed | timeout

record IChileanBank =
  bank_name :: string
  bank_code :: string
  bank_loginUrl :: string
  bank_active :: bool

record ISSLAnalysis =
  enabled :: bool
  protocol :: "string option"
  validCertificate :: "bool option"
  issuer :: "string option"
  ssl_grade :: grade
  issues :: "string list"

text \<open>
  A \<open>Record<string, string>\<close> is the list of its entries in enumeration order, with
  distinct keys: reading a property is \<^const>\<open>map_of\<close>, writing one is
  \<^const>\<open>AList.update\<close>.
\<close>

type_synonym string_record = "(string \<times> string) list"

record ISecurityHeaders =
  strictTransportSecurity :: bool
  contentSecurityPolicy :: bool
  xFrameOptions :: bool
  xContentTypeOptions :: bool
  referrerPolicy :: bool
  permissionsPolicy :: bool
  headers_raw :: string_record
  headers_grade :: grade

record SessionManagement =
  session_timeout :: "int option"
  secureFlag :: "bool option"
  httpOnlyFlag :: "bool option"

record IAuthenticationAnalysis =
  methods :: "string list"
  mfaAvailable :: bool
  mfaTypes :: "string list"
  passwordRequirements :: "string list"
  sessionManagement :: SessionManagement
  auth_grade :: grade

datatype token_type = hidden_field | header | cookie | unknown

record ICSRFAnalysis =
  tokenPresent :: bool
  tokenType :: "token_type option"
  tokenValue :: "string option"
  isProtected :: bool
  csrf_grade :: grade

record ISecurityAuditResult =
  bankCode :: string
  bankName :: string
  loginUrl :: string
  timestamp :: nat
  ssl :: ISSLAnalysis
  headers :: ISecurityHeaders
  authentication :: IAuthenticationAnalysis
  csrf :: ICSRFAnalysis
  recommendations :: "string list"
  riskScore :: int
  status :: audit_status
  error :: "string option"

section \<open>Strings and objects of the host language\<close>

definition upper_letters :: string where
  "upper_letters = ''ABCDEFGHIJKLMNOPQRSTUVWXYZ''"

definition lower_letters :: string where
  "lower_letters = ''abcdefghijklmnopqrstuvwxyz''"

text \<open>
  \<open>toLowerCase\<close> and \<open>toUpperCase\<close> on the ASCII letters; every other byte is left as
  it is. JavaScript also maps the letters outside ASCII, so the two functions agree with
  the code on ASCII strings (HTTP header names, the six header names looked up, bank
  codes such as \<open>BCHILE\<close>) and no further.
\<close>

definition toLowerCase :: "string \<Rightarrow> string" where
  "toLowerCase s =
     map (\<lambda>c. case map_of (zip upper_letters lower_letters) c of Some l \<Rightarrow> l | None \<Rightarrow> c) s"

definition toUpperCase :: "string \<Rightarrow> string" where
  "toUpperCase s =
     map (\<lambda>c. case map_of (zip lower_letters upper_letters) c of Some u \<Rightarrow> u | None \<Rightarrow> c) s"

fun startsWith :: "string \<Rightarrow> string \<Rightarrow> bool" where
  "startsWith s [] = True"
| "startsWith [] (p # ps) = False"
| "startsWith (c # cs) (p # ps) = (c = p \<and> startsWith cs ps)"

fun includes_str :: "string \<Rightarrow> string \<Rightarrow> bool" where
  "includes_str [] needle = (needle = [])"
| "includes_str (c # cs) needle = (startsWith (c # cs) needle \<or> includes_str cs needle)"

text \<open>\<open>Array.prototype.push\<close>, returning the extended array.\<close>

definition push :: "'a list \<Rightarrow> 'a \<Rightarrow> 'a list" where
  "push xs x = xs @ [x]"

text \<open>\<open>Object.fromEntries\<close>: a later entry with the same key overwrites the earlier one.\<close>

definition fromEntries :: "(string \<times> string) list \<Rightarrow> string_record" where
  "fromEntries es = fold (\<lambda>(k, v) obj. AList.update k v obj) es []"

text \<open>\<open>Object.assign(target, source)\<close>.\<close>

definition assign :: "string_record \<Rightarrow> string_record \<Rightarrow> string_record" where
  "assign target source = fold (\<lambda>(k, v) obj. AList.update k v obj) source target"

text \<open>
  \<open>!!obj[key]\<close> for a record of strings: a missing property (\<open>undefined\<close>) and the
  empty string are falsy, every other string is truthy.
\<close>

definition truthy_prop :: "string_record \<Rightarrow> string \<Rightarrow> bool" where
  "truthy_prop obj key = (case map_of obj key of None \<Rightarrow> False | Some v \<Rightarrow> v \<noteq> [])"

section \<open>The risk scorer\<close>

definition excellent_posture :: string where
  "excellent_posture = [CHR 0xE2, CHR 0x9C, CHR 0x85] @ '' Excellent security posture!''"

text \<open>
  \<open>calculateRiskScore\<close> updates the two locals \<open>riskScore\<close> and
  \<open>recommendations\<close> in a fixed sequence of \<open>if\<close> statements. The pair of the two
  locals is the state; each statement of the source is one transformer of it, and the
  function runs them in the order of the source from \<open>(0, [])\<close>.
\<close>

type_synonym risk_state = "int \<times> string list"

definition ssl_check :: "ISSLAnalysis \<Rightarrow> risk_state \<Rightarrow> risk_state" where
  "ssl_check ssl_in st =
     (if \<not> enabled ssl_in then
        (fst st + 40, push (snd st) ''CRITICAL: Implement HTTPS for login page'')
      else if length (issues ssl_in) > 0 then
        (fst st + 10, push (snd st) ''Review SSL/TLS configuration issues'')
      else st)"

definition hsts_check :: "ISecurityHeaders \<Rightarrow> risk_state \<Rightarrow> risk_state" where
  "hsts_check headers_in st =
     (if \<not> strictTransportSecurity headers_in then
        (fst st + 10, push (snd st) ''Implement HSTS (Strict-Transport-Security header)'')
      else st)"

definition csp_check :: "ISecurityHeaders \<Rightarrow> risk_state \<Rightarrow> risk_state" where
  "csp_check headers_in st =
     (if \<not> contentSecurityPolicy headers_in then
        (fst st + 10, push (snd st) ''Implement Content Security Policy (CSP)'')
      else st)"

definition xfo_check :: "ISecurityHeaders \<Rightarrow> risk_state \<Rightarrow> risk_state" where
  "xfo_check headers_in st =
     (if \<not> xFrameOptions headers_in then
        (fst st + 5, push (snd st) ''Add X-Frame-Options header to prevent clickjacking'')
      else st)"

definition mfa_check :: "IAuthenticationAnalysis \<Rightarrow> risk_state \<Rightarrow> risk_state" where
  "mfa_check authentication_in st =
     (if \<not> mfaAvailable authentication_in then
        (fst st + 15, push (snd st) ''Implement Multi-Factor Authentication (MFA/2FA)'')
      else st)"

definition csrf_check :: "ICSRFAnalysis \<Rightarrow> risk_state \<Rightarrow> risk_state" where
  "csrf_check csrf_in st =
     (if \<not> isProtected csrf_in then
        (fst st + 10, push (snd st) ''Implement CSRF protection tokens'')
      else st)"

definition empty_check :: "risk_state \<Rightarrow> risk_state" where
  "empty_check st =
     (if length (snd st) = 0 then (fst st, push (snd st) excellent_posture) else st)"

definition calculateRiskScore ::
  "ISSLAnalysis \<Rightarrow> ISecurityHeaders \<Rightarrow> IAuthenticationAnalysis \<Rightarrow> ICSRFAnalysis
     \<Rightarrow> risk_state" where
  "calculateRiskScore ssl_in headers_in authentication_in csrf_in =
     empty_check
       (csrf_check csrf_in
         (mfa_check authentication_in
           (xfo_check headers_in
             (csp_check headers_in
               (hsts_check headers_in
                 (ssl_check ssl_in (0, [])))))))"

section \<open>The header inspector\<close>

definition header_score :: "ISecurityHeaders \<Rightarrow> int" where
  "header_score analysis =
     (if strictTransportSecurity analysis then 20 else 0) +
     (if contentSecurityPolicy analysis then 25 else 0) +
     (if xFrameOptions analysis then 15 else 0) +
     (if xContentTypeOptions analysis then 15 else 0) +
     (if referrerPolicy analysis then 10 else 0) +
     (if permissionsPolicy analysis then 15 else 0)"

text \<open>
  \<open>analyzeSecurityHeaders\<close>: the object literal \<open>analysis\<close>, whose grade starts as
  \<open>F\<close>, and then the function itself, which computes the score and overwrites the grade.
\<close>

definition initial_analysis :: "string_record \<Rightarrow> ISecurityHeaders" where
  "initial_analysis lowerHeaders =
     \<lparr> strictTransportSecurity = truthy_prop lowerHeaders ''strict-transport-security'',
       contentSecurityPolicy = truthy_prop lowerHeaders ''content-security-policy'',
       xFrameOptions = truthy_prop lowerHeaders ''x-frame-options'',
       xContentTypeOptions = truthy_prop lowerHeaders ''x-content-type-options'',
       referrerPolicy = truthy_prop lowerHeaders ''referrer-policy'',
       permissionsPolicy = truthy_prop lowerHeaders ''permissions-policy'',
       headers_raw = lowerHeaders,
       headers_grade = F \<rparr>"

definition analyzeSecurityHeaders :: "string_record \<Rightarrow> ISecurityHeaders" where
  "analyzeSecurityHeaders hdrs =
     (let lowerHeaders = fromEntries (map (\<lambda>(k, v). (toLowerCase k, v)) hdrs);
          analysis = initial_analysis lowerHeaders;
          score = header_score analysis
      in if score \<ge> 90 then analysis\<lparr>headers_grade := A\<rparr>
         else if score \<ge> 75 then analysis\<lparr>headers_grade := B\<rparr>
         else if score \<ge> 60 then analysis\<lparr>headers_grade := C\<rparr>
         else if score \<ge> 40 then analysis\<lparr>headers_grade := D\<rparr>
         else analysis)"

section \<open>Exceptions and the browser page\<close>

text \<open>
  A thrown value or a rejected promise is \<open>Inl\<close> of an exception carrying its message;
  \<open>await\<close> passes a result on or stops at the exception.
\<close>

datatype exn = NotFoundException string | Error string

fun message :: "exn \<Rightarrow> string" where
  "message (NotFoundException m) = m"
| "message (Error m) = m"

definition await :: "exn + 'a \<Rightarrow> ('a \<Rightarrow> exn + 'b) \<Rightarrow> exn + 'b" where
  "await r k = (case r of Inl e \<Rightarrow> Inl e | Inr x \<Rightarrow> k x)"

record SecurityDetails =
  sd_protocol :: string
  sd_issuer :: string

text \<open>
  The navigation response: what \<open>response.securityDetails()\<close> does when it is called
  (\<open>Inl\<close>: it throws; \<open>Inr None\<close>: it returns \<open>null\<close>).
\<close>

record HTTPResponse =
  securityDetails :: "exn + SecurityDetails option"

record Cookie =
  secure :: bool
  httpOnly :: bool

text \<open>
  The loaded page, as the answers of the four operations the extractors use:
  \<^item> \<open>page_dollar sel\<close> is \<open>page.$(sel)\<close>: whether an element handle (truthy) or
    \<open>null\<close> comes back, or the rejection;
  \<^item> \<open>page_content\<close> is \<open>page.content()\<close> and \<open>page_cookies\<close> is \<open>page.cookies()\<close>;
  \<^item> \<open>page_first_value sel\<close> is the \<open>value\<close> of the first element matching
    \<open>sel\<close> (\<open>None\<close> when nothing matches), or the rejection of the evaluation.
\<close>

record Page =
  page_dollar :: "string \<Rightarrow> exn + bool"
  page_content :: "exn + string"
  page_cookies :: "exn + Cookie list"
  page_first_value :: "string \<Rightarrow> exn + string option"

text \<open>
  \<open>page.$eval(sel, el => el.value)\<close>: rejects when no element matches the selector.
\<close>

definition dollar_eval_value :: "Page \<Rightarrow> string \<Rightarrow> exn + string" where
  "dollar_eval_value page sel =
     (case page_first_value page sel of
        Inl e \<Rightarrow> Inl e
      | Inr None \<Rightarrow> Inl (Error (''Error: failed to find element matching selector '' @ sel))
      | Inr (Some v) \<Rightarrow> Inr v)"

definition SEL_PASSWORD :: string where
  \<open>SEL_PASSWORD = ''input[type="password"]''\<close>

definition SEL_USERNAME :: string where
  \<open>SEL_USERNAME =
     ''input[type="text"], input[type="email"], input[name*="user"], input[name*="rut"]''\<close>

definition SEL_CSRF :: string where
  \<open>SEL_CSRF = ''input[name*="csrf"], input[name*="token"], input[name*="_token"]''\<close>

section \<open>The TLS inspector\<close>

definition analyzeSSL :: "HTTPResponse \<Rightarrow> string \<Rightarrow> exn + ISSLAnalysis" where
  "analyzeSSL response url =
     (let isHTTPS = startsWith url ''https://'' in
      if \<not> isHTTPS then
        Inr \<lparr> enabled = False, protocol = None, validCertificate = None, issuer = None,
              ssl_grade = F,
              issues = push [] ''CRITICAL: Login page not served over HTTPS'' \<rparr>
      else
        await (securityDetails response) (\<lambda>details.
          Inr \<lparr> enabled = True,
                protocol = map_option sd_protocol details,
                validCertificate = Some True,
                issuer = map_option sd_issuer details,
                ssl_grade = (if details = None then C else A_plus),
                issues = (if details = None
                          then push [] ''Unable to retrieve SSL certificate details''
                          else []) \<rparr>))"

section \<open>The authentication inspector\<close>

definition mfa_keywords :: "string list" where
  "mfa_keywords =
     [''MFA'', ''2FA'',
      ''autenticaci'' @ [CHR 0xC3, CHR 0xB3] @ ''n de dos factores'',
      ''segundo factor'', ''token'', ''SMS'',
      ''c'' @ [CHR 0xC3, CHR 0xB3] @ ''digo'']"

definition analyzeAuthentication :: "Page \<Rightarrow> exn + IAuthenticationAnalysis" where
  "analyzeAuthentication page =
     await (page_dollar page SEL_PASSWORD) (\<lambda>hasPasswordField.
     await (page_dollar page SEL_USERNAME) (\<lambda>hasUsernameField.
     let methods_found =
           (if hasPasswordField \<and> hasUsernameField then push [] ''username-password''
            else [])
     in
     await (page_content page) (\<lambda>pageContent.
     let mfa = list_ex (includes_str pageContent) mfa_keywords;
         mfa_types = (if mfa then push [] ''Detected via page content analysis'' else [])
     in
     await (page_cookies page) (\<lambda>cookie_list.
     let session = \<lparr> session_timeout = None,
                       secureFlag = Some (list_ex secure cookie_list),
                       httpOnlyFlag = Some (list_ex httpOnly cookie_list) \<rparr>;
         g = (if length methods_found > 0 \<and> mfa then A
              else if length methods_found > 0 then C
              else F)
     in Inr \<lparr> methods = methods_found, mfaAvailable = mfa, mfaTypes = mfa_types,
              passwordRequirements = [], sessionManagement = session,
              auth_grade = g \<rparr>))))"

section \<open>The CSRF inspector\<close>

text \<open>
  The \<open>.catch(() => null)\<close> turns every rejection of the lookup into \<open>null\<close>
  (\<open>None\<close>); \<open>!!csrfToken\<close> is false for \<open>null\<close> and for the empty string.
\<close>

definition analyzeCSRF :: "Page \<Rightarrow> exn + ICSRFAnalysis" where
  "analyzeCSRF page =
     (let csrfToken = (case dollar_eval_value page SEL_CSRF of
                         Inl e \<Rightarrow> None
                       | Inr v \<Rightarrow> Some v);
          present = (case csrfToken of None \<Rightarrow> False | Some v \<Rightarrow> v \<noteq> []);
          protected = present
      in Inr \<lparr> tokenPresent = present,
               tokenType = (if present then Some hidden_field else None),
               tokenValue = (if present then Some ''[PRESENT]'' else None),
               isProtected = protected,
               csrf_grade = (if protected then A else F) \<rparr>)"

section \<open>The orchestrator\<close>

text \<open>
  The state an audit run changes: the two collections of the database and the list of
  the calls made so far to the browser launcher, the extractors and \<open>browser.close()\<close>
  (what a spy on these functions would have recorded).
\<close>

datatype call =
  Launch | AnalyzeSSL | AnalyzeSecurityHeaders | AnalyzeAuthentication | AnalyzeCSRF | Close

record World =
  banksCollection :: "IChileanBank list"
  auditsCollection :: "ISecurityAuditResult list"
  calls :: "call list"

text \<open>
  What the collaborators answer during one run. An \<open>exn option\<close> is the rejection
  of a call that returns nothing (\<open>None\<close>: it succeeds). \<open>goto_outcome\<close> is the
  outcome of \<open>page.goto\<close>: the response (\<open>None\<close> for \<open>null\<close>) and the responses the
  \<open>response\<close> listener saw during the navigation, each with its URL and headers.
  \<open>date_completed\<close> and \<open>date_failed\<close> are the values of \<open>new Date()\<close> where the
  completed and the failed result are built.
\<close>

record Env =
  findOne_outcome :: "exn option"
  launch_outcome :: "exn option"
  newPage_outcome :: "exn + Page"
  setUserAgent_outcome :: "exn option"
  setRequestInterception_outcome :: "exn option"
  goto_outcome :: "exn + (HTTPResponse option \<times> (string \<times> string_record) list)"
  insertOne_outcome :: "ISecurityAuditResult \<Rightarrow> exn option"
  close_outcome :: "exn option"
  date_completed :: nat
  date_failed :: nat

type_synonym 'a io = "World \<Rightarrow> (exn + 'a) \<times> World"

definition io_return :: "'a \<Rightarrow> 'a io" where
  "io_return x = (\<lambda>w. (Inr x, w))"

definition io_throw :: "exn \<Rightarrow> 'a io" where
  "io_throw e = (\<lambda>w. (Inl e, w))"

definition io_bind :: "'a io \<Rightarrow> ('a \<Rightarrow> 'b io) \<Rightarrow> 'b io" where
  "io_bind m k = (\<lambda>w. case m w of (Inl e, w1) \<Rightarrow> (Inl e, w1) | (Inr x, w1) \<Rightarrow> k x w1)"

definition io_await :: "exn + 'a \<Rightarrow> 'a io" where
  "io_await r = (\<lambda>w. (r, w))"

definition io_await_unit :: "exn option \<Rightarrow> unit io" where
  "io_await_unit r = (\<lambda>w. (case r of Some e \<Rightarrow> Inl e | None \<Rightarrow> Inr (), w))"

text \<open>A call of one of the observed functions: it is recorded, then it answers.\<close>

definition io_call :: "call \<Rightarrow> 'a io \<Rightarrow> 'a io" where
  "io_call c m = (\<lambda>w. m (w\<lparr>calls := calls w @ [c]\<rparr>))"

text \<open>\<open>try { m } catch (error) { h error }\<close> and \<open>try { m } finally { fin }\<close>.\<close>

definition try_catch :: "'a io \<Rightarrow> (exn \<Rightarrow> 'a io) \<Rightarrow> 'a io" where
  "try_catch m h = (\<lambda>w. case m w of (Inl e, w1) \<Rightarrow> h e w1 | (Inr x, w1) \<Rightarrow> (Inr x, w1))"

definition try_finally :: "'a io \<Rightarrow> unit io \<Rightarrow> 'a io" where
  "try_finally m fin =
     (\<lambda>w. case m w of
        (r, w1) \<Rightarrow> (case fin w1 of (Inl e, w2) \<Rightarrow> (Inl e, w2) | (Inr u, w2) \<Rightarrow> (r, w2)))"

definition getBankByCode :: "Env \<Rightarrow> string \<Rightarrow> IChileanBank io" where
  "getBankByCode env code_in =
     io_bind (io_await_unit (findOne_outcome env)) (\<lambda>u w.
       case find (\<lambda>b. bank_code b = toUpperCase code_in) (banksCollection w) of
         None \<Rightarrow>
           (Inl (NotFoundException (''Bank with code '' @ code_in @ '' not found'')), w)
       | Some bank \<Rightarrow> (Inr bank, w))"

text \<open>
  \<open>launchBrowser\<close> reads three presentation settings and calls \<open>puppeteer.launch\<close>;
  it does not use its parameter \<open>verbose\<close>. The browser it returns is only ever closed,
  so its value is \<open>()\<close>.
\<close>

definition launchBrowser :: "Env \<Rightarrow> bool \<Rightarrow> unit io" where
  "launchBrowser env verbose = io_call Launch (io_await_unit (launch_outcome env))"

definition closeBrowser :: "Env \<Rightarrow> unit io" where
  "closeBrowser env = io_call Close (io_await_unit (close_outcome env))"

text \<open>
  \<open>auditsCollection.insertOne\<close>: the document is appended to the collection, or the
  call rejects and stores nothing.
\<close>

definition insertOne :: "Env \<Rightarrow> ISecurityAuditResult \<Rightarrow> unit io" where
  "insertOne env doc =
     (\<lambda>w. case insertOne_outcome env doc of
        Some e \<Rightarrow> (Inl e, w)
      | None \<Rightarrow> (Inr (), w\<lparr>auditsCollection := auditsCollection w @ [doc]\<rparr>))"

text \<open>
  The \<open>response\<close> listener: the headers of every observed response whose URL is the
  login URL are merged into \<open>responseHeaders\<close>.
\<close>

definition collect_responseHeaders ::
  "string \<Rightarrow> (string \<times> string_record) list \<Rightarrow> string_record" where
  "collect_responseHeaders url observed =
     fold (\<lambda>(u, hs) responseHeaders.
             if u = url then assign responseHeaders hs else responseHeaders)
       observed []"

definition completedResult ::
  "Env \<Rightarrow> IChileanBank \<Rightarrow> ISSLAnalysis \<Rightarrow> ISecurityHeaders \<Rightarrow> IAuthenticationAnalysis
     \<Rightarrow> ICSRFAnalysis \<Rightarrow> ISecurityAuditResult" where
  "completedResult env bank ssl_r headers_r authentication_r csrf_r =
     (let (score, recs) = calculateRiskScore ssl_r headers_r authentication_r csrf_r in
      \<lparr> bankCode = bank_code bank, bankName = bank_name bank,
        loginUrl = bank_loginUrl bank, timestamp = date_completed env,
        ssl = ssl_r, headers = headers_r, authentication = authentication_r,
        csrf = csrf_r, recommendations = recs, riskScore = score,
        status = completed, error = None \<rparr>)"

text \<open>
  The body of the \<open>try\<close> block of \<open>auditBank\<close>. The logger calls and the
  \<open>request\<close> listener are left out: nothing reads \<open>requestHeaders\<close>.
\<close>

definition tryBlock :: "Env \<Rightarrow> IChileanBank \<Rightarrow> ISecurityAuditResult io" where
  "tryBlock env bank =
     io_bind (io_await (newPage_outcome env)) (\<lambda>page.
     io_bind (io_await_unit (setUserAgent_outcome env)) (\<lambda>u1.
     io_bind (io_await_unit (setRequestInterception_outcome env)) (\<lambda>u2.
     io_bind (io_await (goto_outcome env)) (\<lambda>(response, observed).
     let responseHeaders = collect_responseHeaders (bank_loginUrl bank) observed in
     case response of
       None \<Rightarrow> io_throw (Error ''Failed to load page - no response received'')
     | Some resp \<Rightarrow>
         io_bind (io_call AnalyzeSSL (io_await (analyzeSSL resp (bank_loginUrl bank))))
           (\<lambda>ssl_r.
         io_bind (io_call AnalyzeSecurityHeaders
                    (io_return (analyzeSecurityHeaders responseHeaders)))
           (\<lambda>headers_r.
         io_bind (io_call AnalyzeAuthentication (io_await (analyzeAuthentication page)))
           (\<lambda>authentication_r.
         io_bind (io_call AnalyzeCSRF (io_await (analyzeCSRF page)))
           (\<lambda>csrf_r.
         let auditResult =
               completedResult env bank ssl_r headers_r authentication_r csrf_r
         in io_bind (insertOne env auditResult) (\<lambda>u3. io_return auditResult)))))))))"

definition failedResult :: "Env \<Rightarrow> IChileanBank \<Rightarrow> exn \<Rightarrow> ISecurityAuditResult" where
  "failedResult env bank err =
     \<lparr> bankCode = bank_code bank, bankName = bank_name bank,
       loginUrl = bank_loginUrl bank, timestamp = date_failed env,
       ssl = \<lparr> enabled = False, protocol = None, validCertificate = None, issuer = None,
               ssl_grade = F, issues = [''Audit failed''] \<rparr>,
       headers = \<lparr> strictTransportSecurity = False, contentSecurityPolicy = False,
                   xFrameOptions = False, xContentTypeOptions = False,
                   referrerPolicy = False, permissionsPolicy = False,
                   headers_raw = [], headers_grade = F \<rparr>,
       authentication = \<lparr> methods = [], mfaAvailable = False, mfaTypes = [],
                          passwordRequirements = [],
                          sessionManagement = \<lparr> session_timeout = None, secureFlag = None,
                                                httpOnlyFlag = None \<rparr>,
                          auth_grade = F \<rparr>,
       csrf = \<lparr> tokenPresent = False, tokenType = None, tokenValue = None,
                isProtected = False, csrf_grade = F \<rparr>,
       recommendations = [''Audit failed - please retry''],
       riskScore = 100, status = failed, error = Some (message err) \<rparr>"

text \<open>The body of the \<open>catch\<close> block of \<open>auditBank\<close>.\<close>

definition catchBlock :: "Env \<Rightarrow> IChileanBank \<Rightarrow> exn \<Rightarrow> ISecurityAuditResult io" where
  "catchBlock env bank err =
     io_bind (insertOne env (failedResult env bank err)) (\<lambda>u. io_throw err)"

definition auditBank :: "Env \<Rightarrow> string \<Rightarrow> bool \<Rightarrow> ISecurityAuditResult io" where
  "auditBank env bankCode_in verbose =
     io_bind (getBankByCode env bankCode_in) (\<lambda>bank.
     io_bind (launchBrowser env verbose) (\<lambda>browser.
     try_finally (try_catch (tryBlock env bank) (catchBlock env bank))
       (closeBrowser env)))"

section \<open>The header grading as the specification words it\<close>

text \<open>
  The weights and the thresholds of the specification, written from its words and not
  from the source: the weighted sum over the six presence flags and the letter bucket
  of a score.
\<close>

definition spec_weighted_sum ::
  "bool \<Rightarrow> bool \<Rightarrow> bool \<Rightarrow> bool \<Rightarrow> bool \<Rightarrow> bool \<Rightarrow> int" where
  "spec_weighted_sum hsts csp xfo xcto rp pp =
     sum_list (map (\<lambda>(present, weight). if present then weight else 0)
       [(hsts, 20), (csp, 25), (xfo, 15), (xcto, 15), (rp, 10), (pp, 15)])"

definition spec_grade_bucket :: "int \<Rightarrow> grade" where
  "spec_grade_bucket score =
     (if score \<ge> 90 then A else if score \<ge> 75 then B else if score \<ge> 60 then C
      else if score \<ge> 40 then D else F)"

text \<open>
  The header map read directly: \<open>header_value hdrs n\<close> is the value of the last
  entry of the map whose name, in lower case, is \<open>n\<close>, and \<open>header_set hdrs n\<close> says
  that there is such an entry and that its value is not the empty string.
\<close>

definition header_value :: "string_record \<Rightarrow> string \<Rightarrow> string option" where
  "header_value hdrs n =
     map_option snd (find (\<lambda>(k, v). toLowerCase k = n) (rev hdrs))"

definition header_set :: "string_record \<Rightarrow> string \<Rightarrow> bool" where
  "header_set hdrs n = (case header_value hdrs n of None \<Rightarrow> False | Some v \<Rightarrow> v \<noteq> [])"

text \<open>The invariant of a TLS result, in the words of the specification.\<close>

definition tls_invariant :: "ISSLAnalysis \<Rightarrow> bool" where
  "tls_invariant t = (\<not> enabled t \<longrightarrow> ssl_grade t = F)"

section \<open>Concrete inputs\<close>

text \<open>A registered bank, a database holding it, and a run in which every step succeeds.\<close>

definition bank_t1 :: IChileanBank where
  "bank_t1 = \<lparr> bank_name = ''Test Bank'', bank_code = ''T1'',
               bank_loginUrl = ''https://example.test'', bank_active = True \<rparr>"

definition world0 :: World where
  "world0 = \<lparr> banksCollection = [bank_t1], auditsCollection = [], calls = [] \<rparr>"

definition headers_hsts_csp :: string_record where
  "headers_hsts_csp =
     [(''Strict-Transport-Security'', ''max-age=31536000''),
      (''Content-Security-Policy'', ''default-src https:'')]"

text \<open>A header map with exactly the HSTS and the CSP header, the first with an empty value.\<close>

definition headers_empty_hsts :: string_record where
  "headers_empty_hsts =
     [(''strict-transport-security'', []),
      (''content-security-policy'', ''default-src https:'')]"

definition headers_all_six :: string_record where
  "headers_all_six =
     [(''strict-transport-security'', ''max-age=31536000''),
      (''content-security-policy'', ''default-src https:''),
      (''x-frame-options'', ''DENY''),
      (''x-content-type-options'', ''nosniff''),
      (''referrer-policy'', ''no-referrer''),
      (''permissions-policy'', ''geolocation=()'')]"

definition page_ok :: Page where
  "page_ok = \<lparr> page_dollar = (\<lambda>sel. Inr (sel = SEL_PASSWORD \<or> sel = SEL_USERNAME)),
               page_content = Inr ''Login page with token'',
               page_cookies = Inr [\<lparr> secure = True, httpOnly = False \<rparr>],
               page_first_value =
                 (\<lambda>sel. if sel = SEL_CSRF then Inr (Some ''abc123'') else Inr None) \<rparr>"

definition response_ok :: HTTPResponse where
  "response_ok =
     \<lparr> securityDetails = Inr (Some \<lparr> sd_protocol = ''TLS 1.3'', sd_issuer = ''Test CA'' \<rparr>) \<rparr>"

definition env_ok :: Env where
  "env_ok = \<lparr> findOne_outcome = None, launch_outcome = None,
              newPage_outcome = Inr page_ok, setUserAgent_outcome = None,
              setRequestInterception_outcome = None,
              goto_outcome = Inr (Some response_ok, [(''https://example.test'', headers_all_six)]),
              insertOne_outcome = (\<lambda>doc. None), close_outcome = None,
              date_completed = 1, date_failed = 2 \<rparr>"

text \<open>The same run, except that the browser process does not start.\<close>

definition env_launch_fails :: Env where
  "env_launch_fails =
     env_ok\<lparr>launch_outcome := Some (Error ''Failed to launch the browser process'')\<rparr>"

text \<open>The same run, except that the navigation times out.\<close>

definition env_navigation_timeout :: Env where
  "env_navigation_timeout =
     env_ok\<lparr>goto_outcome := Inl (Error ''Navigation timeout of 30000 ms exceeded'')\<rparr>"

text \<open>
  The same run, except that \<open>page.content()\<close> rejects, so that the authentication
  extractor throws.
\<close>

definition page_content_rejects :: Page where
  "page_content_rejects =
     page_ok\<lparr>page_content := Inl (Error ''Execution context was destroyed'')\<rparr>"

definition env_content_rejects :: Env where
  "env_content_rejects = env_ok\<lparr>newPage_outcome := Inr page_content_rejects\<rparr>"

text \<open>A page whose CSRF input is there and has the empty string as its value.\<close>

definition page_empty_token :: Page where
  "page_empty_token = page_ok\<lparr>page_first_value := (\<lambda>sel. Inr (Some []))\<rparr>"

text \<open>A response object without a working \<open>securityDetails\<close> method.\<close>

definition response_no_method :: HTTPResponse where
  "response_no_method =
     \<lparr> securityDetails = Inl (Error ''response.securityDetails is not a function'') \<rparr>"

text \<open>The four signal records with every signal bad, and with every signal good.\<close>

definition ssl_bad :: ISSLAnalysis where
  "ssl_bad = \<lparr> enabled = False, protocol = None, validCertificate = None, issuer = None,
               ssl_grade = F, issues = [''No HTTPS'', ''Expired cert''] \<rparr>"

definition headers_bad :: ISecurityHeaders where
  "headers_bad = \<lparr> strictTransportSecurity = False, contentSecurityPolicy = False,
                   xFrameOptions = False, xContentTypeOptions = False,
                   referrerPolicy = False, permissionsPolicy = False,
                   headers_raw = [], headers_grade = F \<rparr>"

definition auth_bad :: IAuthenticationAnalysis where
  "auth_bad = \<lparr> methods = [], mfaAvailable = False, mfaTypes = [],
                passwordRequirements = [],
                sessionManagement = \<lparr> session_timeout = None, secureFlag = None,
                                      httpOnlyFlag = None \<rparr>,
                auth_grade = F \<rparr>"

definition csrf_bad :: ICSRFAnalysis where
  "csrf_bad = \<lparr> tokenPresent = False, tokenType = None, tokenValue = None,
                isProtected = False, csrf_grade = F \<rparr>"

definition ssl_good :: ISSLAnalysis where
  "ssl_good = \<lparr> enabled = True, protocol = Some ''TLS 1.3'', validCertificate = Some True,
                issuer = Some ''Test CA'', ssl_grade = A_plus, issues = [] \<rparr>"

definition headers_good :: ISecurityHeaders where
  "headers_good = \<lparr> strictTransportSecurity = True, contentSecurityPolicy = True,
                    xFrameOptions = True, xContentTypeOptions = True,
                    referrerPolicy = True, permissionsPolicy = True,
                    headers_raw = [], headers_grade = A \<rparr>"

definition auth_good :: IAuthenticationAnalysis where
  "auth_good = \<lparr> methods = [''username-password''], mfaAvailable = True,
                 mfaTypes = [''SMS''], passwordRequirements = [],
                 sessionManagement = \<lparr> session_timeout = None, secureFlag = Some True,
                                       httpOnlyFlag = Some True \<rparr>,
                 auth_grade = A \<rparr>"

definition csrf_good :: ICSRFAnalysis where
  "csrf_good = \<lparr> tokenPresent = True, tokenType = Some hidden_field,
                 tokenValue = Some ''[PRESENT]'', isProtected = True, csrf_grade = A \<rparr>"

text \<open>
  A run over HTTPS in which reading the security details of the response throws, so
  that the TLS extractor throws.
\<close>

definition env_ssl_throws :: Env where
  "env_ssl_throws = env_ok\<lparr>goto_outcome := Inr (Some response_no_method, [])\<rparr>"

section \<open>Facts about the risk scorer and the header inspector\<close>

lemmas risk_checks = ssl_check_def hsts_check_def csp_check_def xfo_check_def
  mfa_check_def csrf_check_def empty_check_def

lemma ssl_check_bounds:
  "fst st \<le> fst (ssl_check s st) \<and> fst (ssl_check s st) \<le> fst st + 40"
  by (simp add: ssl_check_def)

lemma hsts_check_bounds:
  "fst st \<le> fst (hsts_check h st) \<and> fst (hsts_check h st) \<le> fst st + 10"
  by (simp add: hsts_check_def)

lemma csp_check_bounds:
  "fst st \<le> fst (csp_check h st) \<and> fst (csp_check h st) \<le> fst st + 10"
  by (simp add: csp_check_def)

lemma xfo_check_bounds:
  "fst st \<le> fst (xfo_check h st) \<and> fst (xfo_check h st) \<le> fst st + 5"
  by (simp add: xfo_check_def)

lemma mfa_check_bounds:
  "fst st \<le> fst (mfa_check a st) \<and> fst (mfa_check a st) \<le> fst st + 15"
  by (simp add: mfa_check_def)

lemma csrf_check_bounds:
  "fst st \<le> fst (csrf_check c st) \<and> fst (csrf_check c st) \<le> fst st + 10"
  by (simp add: csrf_check_def)

lemma empty_check_score: "fst (empty_check st) = fst st"
  by (simp add: empty_check_def)

lemma header_score_weighted:
  "header_score r =
     spec_weighted_sum (strictTransportSecurity r) (contentSecurityPolicy r)
       (xFrameOptions r) (xContentTypeOptions r) (referrerPolicy r) (permissionsPolicy r)"
  by (simp add: header_score_def spec_weighted_sum_def)

lemma header_score_grade_update:
  "header_score (r\<lparr>headers_grade := g\<rparr>) = header_score r"
  by (simp add: header_score_def)

lemma initial_analysis_grade: "headers_grade (initial_analysis l) = F"
  by (simp add: initial_analysis_def)

lemma analyzeSecurityHeaders_grade:
  "headers_grade (analyzeSecurityHeaders hdrs) =
     spec_grade_bucket (header_score (analyzeSecurityHeaders hdrs))"
  by (simp add: analyzeSecurityHeaders_def Let_def spec_grade_bucket_def
        header_score_grade_update initial_analysis_grade)

lemma map_of_fold_update:
  "map_of (fold (\<lambda>(k, v) obj. AList.update k v obj) es acc) n =
     (case map_of (rev es) n of Some v \<Rightarrow> Some v | None \<Rightarrow> map_of acc n)"
proof (induction es arbitrary: acc)
  case Nil
  then show ?case by simp
next
  case (Cons x es)
  obtain k v where x: "x = (k, v)" by (cases x)
  show ?case
    using Cons.IH [of "AList.update k v acc"]
    by (simp add: x update_conv map_add_def split: option.splits)
qed

lemma map_of_fromEntries: "map_of (fromEntries es) n = map_of (rev es) n"
  by (simp add: fromEntries_def map_of_fold_update split: option.splits)

lemma map_of_lowered:
  "map_of (map (\<lambda>(k, v). (f k, v)) xs) n = map_option snd (find (\<lambda>(k, v). f k = n) xs)"
  by (induction xs) auto

lemma truthy_lowered:
  "truthy_prop (fromEntries (map (\<lambda>(k, v). (toLowerCase k, v)) hdrs)) n = header_set hdrs n"
proof -
  have "map_of (fromEntries (map (\<lambda>(k, v). (toLowerCase k, v)) hdrs)) n =
        map_of (map (\<lambda>(k, v). (toLowerCase k, v)) (rev hdrs)) n"
    by (simp add: map_of_fromEntries rev_map)
  also have "\<dots> = header_value hdrs n"
    by (simp add: map_of_lowered header_value_def)
  finally show ?thesis
    by (simp add: truthy_prop_def header_set_def)
qed

lemma analyzeSecurityHeaders_flags:
  "strictTransportSecurity (analyzeSecurityHeaders hdrs) =
     header_set hdrs ''strict-transport-security'' \<and>
   contentSecurityPolicy (analyzeSecurityHeaders hdrs) =
     header_set hdrs ''content-security-policy'' \<and>
   xFrameOptions (analyzeSecurityHeaders hdrs) = header_set hdrs ''x-frame-options'' \<and>
   xContentTypeOptions (analyzeSecurityHeaders hdrs) =
     header_set hdrs ''x-content-type-options'' \<and>
   referrerPolicy (analyzeSecurityHeaders hdrs) = header_set hdrs ''referrer-policy'' \<and>
   permissionsPolicy (analyzeSecurityHeaders hdrs) = header_set hdrs ''permissions-policy''"
  by (simp add: analyzeSecurityHeaders_def Let_def initial_analysis_def truthy_lowered)

section \<open>Facts about the orchestrator\<close>

lemmas io_defs = io_return_def io_throw_def io_bind_def io_await_def io_await_unit_def
  io_call_def try_catch_def try_finally_def

lemma getBankByCode_found:
  assumes "findOne_outcome env = None"
      and "find (\<lambda>b. bank_code b = toUpperCase c) (banksCollection w) = Some bank"
  shows "getBankByCode env c w = (Inr bank, w)"
  using assms by (simp add: getBankByCode_def io_defs)

lemma getBankByCode_missing:
  assumes "find (\<lambda>b. bank_code b = toUpperCase c) (banksCollection w) = None"
  shows "getBankByCode env c w =
           (Inl (case findOne_outcome env of
                   Some e \<Rightarrow> e
                 | None \<Rightarrow> NotFoundException (''Bank with code '' @ c @ '' not found'')), w)"
  using assms by (simp add: getBankByCode_def io_defs split: option.splits)

lemma auditBank_unresolved:
  assumes "getBankByCode env c w = (Inl e, w1)"
  shows "auditBank env c v w = (Inl e, w1)"
  using assms by (simp add: auditBank_def io_bind_def)

lemma auditBank_launch_fails:
  assumes "getBankByCode env c w = (Inr bank, w)"
      and "launch_outcome env = Some e"
  shows "auditBank env c v w = (Inl e, w\<lparr>calls := calls w @ [Launch]\<rparr>)"
  using assms by (simp add: auditBank_def launchBrowser_def io_defs)

lemma auditBank_try_error:
  assumes "getBankByCode env c w = (Inr bank, w)"
      and "launch_outcome env = None"
      and "tryBlock env bank (w\<lparr>calls := calls w @ [Launch]\<rparr>) = (Inl e, w1)"
  shows "auditBank env c v w =
           (Inl (case close_outcome env of
                   Some ce \<Rightarrow> ce
                 | None \<Rightarrow> (case insertOne_outcome env (failedResult env bank e) of
                               Some ie \<Rightarrow> ie
                             | None \<Rightarrow> e)),
            w1\<lparr>auditsCollection :=
                  (case insertOne_outcome env (failedResult env bank e) of
                     Some ie \<Rightarrow> auditsCollection w1
                   | None \<Rightarrow> auditsCollection w1 @ [failedResult env bank e]),
                calls := calls w1 @ [Close]\<rparr>)"
  using assms
  by (simp add: auditBank_def launchBrowser_def closeBrowser_def catchBlock_def insertOne_def
        io_defs split: option.splits)

lemma auditBank_try_ok:
  assumes "getBankByCode env c w = (Inr bank, w)"
      and "launch_outcome env = None"
      and "tryBlock env bank (w\<lparr>calls := calls w @ [Launch]\<rparr>) = (Inr a, w1)"
  shows "auditBank env c v w =
           ((case close_outcome env of Some ce \<Rightarrow> Inl ce | None \<Rightarrow> Inr a),
            w1\<lparr>calls := calls w1 @ [Close]\<rparr>)"
  using assms
  by (simp add: auditBank_def launchBrowser_def closeBrowser_def io_defs split: option.splits)

lemma tryBlock_goto_fails:
  assumes "newPage_outcome env = Inr page" "setUserAgent_outcome env = None"
      "setRequestInterception_outcome env = None" "goto_outcome env = Inl e"
  shows "tryBlock env bank w = (Inl e, w)"
  using assms by (simp add: tryBlock_def io_defs)

lemma tryBlock_no_response:
  assumes "newPage_outcome env = Inr page" "setUserAgent_outcome env = None"
      "setRequestInterception_outcome env = None" "goto_outcome env = Inr (None, observed)"
  shows "tryBlock env bank w = (Inl (Error ''Failed to load page - no response received''), w)"
  using assms by (simp add: tryBlock_def io_defs)

lemma tryBlock_ssl_throws:
  assumes "newPage_outcome env = Inr page" "setUserAgent_outcome env = None"
      "setRequestInterception_outcome env = None" "goto_outcome env = Inr (Some resp, observed)"
      "analyzeSSL resp (bank_loginUrl bank) = Inl e"
  shows "tryBlock env bank w = (Inl e, w\<lparr>calls := calls w @ [AnalyzeSSL]\<rparr>)"
  using assms by (simp add: tryBlock_def io_defs)

lemma tryBlock_auth_throws:
  assumes "newPage_outcome env = Inr page" "setUserAgent_outcome env = None"
      "setRequestInterception_outcome env = None" "goto_outcome env = Inr (Some resp, observed)"
      "analyzeSSL resp (bank_loginUrl bank) = Inr s"
      "analyzeAuthentication page = Inl e"
  shows "tryBlock env bank w =
           (Inl e, w\<lparr>calls := calls w @ [AnalyzeSSL, AnalyzeSecurityHeaders, AnalyzeAuthentication]\<rparr>)"
  using assms by (simp add: tryBlock_def io_defs)

lemma analyzeCSRF_total: "\<exists>r. analyzeCSRF page = Inr r"
  by (simp add: analyzeCSRF_def Let_def)

lemma tryBlock_extracted:
  assumes "newPage_outcome env = Inr page" "setUserAgent_outcome env = None"
      "setRequestInterception_outcome env = None" "goto_outcome env = Inr (Some resp, observed)"
      "analyzeSSL resp (bank_loginUrl bank) = Inr s"
      "analyzeAuthentication page = Inr a"
  shows "\<exists>r w1. tryBlock env bank w = (r, w1) \<and>
           calls w1 = calls w @ [AnalyzeSSL, AnalyzeSecurityHeaders, AnalyzeAuthentication, AnalyzeCSRF]"
  using assms analyzeCSRF_total [of page]
  by (auto simp add: tryBlock_def io_defs insertOne_def Let_def split: option.splits)

lemma tryBlock_error:
  assumes "tryBlock env bank w = (Inl e, w1)"
  shows "auditsCollection w1 = auditsCollection w \<and>
         (\<exists>cs. calls w1 = calls w @ cs \<and> Close \<notin> set cs \<and> Launch \<notin> set cs)"
  using assms unfolding tryBlock_def io_defs insertOne_def Let_def
  by (auto split: sum.splits option.splits prod.splits)

lemma tryBlock_ok:
  assumes "tryBlock env bank w = (Inr a, w1)"
  shows "auditsCollection w1 = auditsCollection w @ [a] \<and> status a = completed \<and>
         (\<exists>resp. analyzeSSL resp (bank_loginUrl bank) = Inr (ssl a)) \<and>
         (\<exists>cs. calls w1 = calls w @ cs \<and> Close \<notin> set cs \<and> Launch \<notin> set cs)"
  using assms unfolding tryBlock_def io_defs insertOne_def Let_def completedResult_def
  by (auto split: sum.splits option.splits prod.splits)

lemma getBankByCode_world: "getBankByCode env c w = (r, w1) \<Longrightarrow> w1 = w"
  unfolding getBankByCode_def io_defs by (auto split: option.splits)

section \<open>The claims about the risk scorer\<close>

text \<open>
  C3. For the all-bad signal combination (TLS not enabled, all six header flags false,
  no authentication method and no MFA, CSRF not protected) the risk scorer returns the
  score 90 and six recommendations (so at least five), in the fixed order TLS, HSTS,
  CSP, X-Frame-Options, MFA, CSRF; the first one is the recommendation to implement
  HTTPS.
\<close>

theorem all_bad_signals_score_90:
  assumes "\<not> enabled s"
      and "\<not> strictTransportSecurity h" and "\<not> contentSecurityPolicy h"
      and "\<not> xFrameOptions h" and "\<not> xContentTypeOptions h"
      and "\<not> referrerPolicy h" and "\<not> permissionsPolicy h"
      and "methods a = []" and "\<not> mfaAvailable a"
      and "\<not> isProtected c"
  shows "fst (calculateRiskScore s h a c) = 90 \<and>
         length (snd (calculateRiskScore s h a c)) \<ge> 5 \<and>
         hd (snd (calculateRiskScore s h a c)) = ''CRITICAL: Implement HTTPS for login page'' \<and>
         snd (calculateRiskScore s h a c) =
           [''CRITICAL: Implement HTTPS for login page'',
            ''Implement HSTS (Strict-Transport-Security header)'',
            ''Implement Content Security Policy (CSP)'',
            ''Add X-Frame-Options header to prevent clickjacking'',
            ''Implement Multi-Factor Authentication (MFA/2FA)'',
            ''Implement CSRF protection tokens'']"
  using assms by (simp add: calculateRiskScore_def push_def risk_checks)

theorem all_bad_signals_score_90_witness:
  "fst (calculateRiskScore ssl_bad headers_bad auth_bad csrf_bad) = 90 \<and>
   length (snd (calculateRiskScore ssl_bad headers_bad auth_bad csrf_bad)) = 6 \<and>
   hd (snd (calculateRiskScore ssl_bad headers_bad auth_bad csrf_bad)) =
     ''CRITICAL: Implement HTTPS for login page''"
  using all_bad_signals_score_90 [of ssl_bad headers_bad auth_bad csrf_bad]
  by (simp add: ssl_bad_def headers_bad_def auth_bad_def csrf_bad_def)

text \<open>
  C4. For the all-good signal combination (TLS enabled with no issues, all six header
  flags true, a detected authentication method with MFA, CSRF protected) the risk
  scorer returns the score 0 and exactly one recommendation, the positive
  "Excellent security posture!" message.
\<close>

theorem all_good_signals_score_0:
  assumes "enabled s" and "issues s = []"
      and "strictTransportSecurity h" and "contentSecurityPolicy h"
      and "xFrameOptions h" and "xContentTypeOptions h"
      and "referrerPolicy h" and "permissionsPolicy h"
      and "methods a \<noteq> []" and "mfaAvailable a"
      and "isProtected c"
  shows "calculateRiskScore s h a c = (0, [excellent_posture])"
  using assms by (simp add: calculateRiskScore_def push_def risk_checks)

theorem all_good_signals_score_0_witness:
  "calculateRiskScore ssl_good headers_good auth_good csrf_good = (0, [excellent_posture])"
  using all_good_signals_score_0 [of ssl_good headers_good auth_good csrf_good]
  by (simp add: ssl_good_def headers_good_def auth_good_def csrf_good_def)

text \<open>
  C9. For every combination of the four signal records the risk score lies between 0
  and 90: the two TLS penalties exclude each other, so the penalties add up to at most
  40 + 10 + 10 + 5 + 15 + 10.
\<close>

theorem risk_score_between_0_and_90:
  "0 \<le> fst (calculateRiskScore s h a c) \<and> fst (calculateRiskScore s h a c) \<le> 90"
proof -
  let ?s1 = "ssl_check s (0, [])"
  let ?s2 = "hsts_check h ?s1"
  let ?s3 = "csp_check h ?s2"
  let ?s4 = "xfo_check h ?s3"
  let ?s5 = "mfa_check a ?s4"
  let ?s6 = "csrf_check c ?s5"
  have "fst (calculateRiskScore s h a c) = fst ?s6"
    by (simp add: calculateRiskScore_def empty_check_score)
  moreover have "0 \<le> fst ?s1 \<and> fst ?s1 \<le> 40"
    using ssl_check_bounds [of "(0, [])" s] by simp
  moreover note hsts_check_bounds [of ?s1 h] csp_check_bounds [of ?s2 h]
    xfo_check_bounds [of ?s3 h] mfa_check_bounds [of ?s4 a] csrf_check_bounds [of ?s5 c]
  ultimately show ?thesis by linarith
qed

section \<open>The claim about the header inspector\<close>

text \<open>
  C5, as stated, fails in its particular case: in a header map where exactly the HSTS
  and the CSP header are present and the HSTS header has the empty string as its value,
  the HSTS flag is false, the score is 25 and the grade is F.
\<close>

theorem empty_header_value_counterexample:
  "map fst headers_empty_hsts = [''strict-transport-security'', ''content-security-policy''] \<and>
   \<not> strictTransportSecurity (analyzeSecurityHeaders headers_empty_hsts) \<and>
   header_score (analyzeSecurityHeaders headers_empty_hsts) = 25 \<and>
   headers_grade (analyzeSecurityHeaders headers_empty_hsts) = F"
  by code_simp

text \<open>
  C5, amended. For every raw header map, each of the six flags of the result is true
  exactly when the map has an entry for that header (names compared in lower case, the
  last such entry counting) whose value is not the empty string. The grade is the letter
  bucket (at least 90 is A, at least 75 is B, at least 60 is C, at least 40 is D, else
  F) of the weighted sum over these six flags, with the weights HSTS 20, CSP 25,
  X-Frame-Options 15, X-Content-Type-Options 15, Referrer-Policy 10,
  Permissions-Policy 15. When exactly the HSTS and the CSP header are present with
  non-empty values, the sum is 45 and the grade is D.
\<close>

theorem header_grade_is_bucket_of_weighted_sum:
  "(let r = analyzeSecurityHeaders hdrs;
        hsts = header_set hdrs ''strict-transport-security'';
        csp = header_set hdrs ''content-security-policy'';
        xfo = header_set hdrs ''x-frame-options'';
        xcto = header_set hdrs ''x-content-type-options'';
        rp = header_set hdrs ''referrer-policy'';
        pp = header_set hdrs ''permissions-policy'';
        score = spec_weighted_sum hsts csp xfo xcto rp pp
    in strictTransportSecurity r = hsts \<and> contentSecurityPolicy r = csp \<and>
       xFrameOptions r = xfo \<and> xContentTypeOptions r = xcto \<and>
       referrerPolicy r = rp \<and> permissionsPolicy r = pp \<and>
       header_score r = score \<and>
       headers_grade r = spec_grade_bucket score \<and>
       (hsts \<and> csp \<and> \<not> xfo \<and> \<not> xcto \<and> \<not> rp \<and> \<not> pp
          \<longrightarrow> score = 45 \<and> headers_grade r = D))"
proof -
  let ?r = "analyzeSecurityHeaders hdrs"
  note f = analyzeSecurityHeaders_flags [of hdrs]
  have g: "headers_grade ?r = spec_grade_bucket (header_score ?r)"
    by (rule analyzeSecurityHeaders_grade)
  have w: "header_score ?r =
      spec_weighted_sum (strictTransportSecurity ?r) (contentSecurityPolicy ?r)
        (xFrameOptions ?r) (xContentTypeOptions ?r) (referrerPolicy ?r) (permissionsPolicy ?r)"
    by (rule header_score_weighted)
  have b: "spec_weighted_sum True True False False False False = 45"
    by (simp add: spec_weighted_sum_def)
  have d: "spec_grade_bucket 45 = D"
    by (simp add: spec_grade_bucket_def)
  show ?thesis
    unfolding Let_def using f g w b d by auto
qed

theorem header_grade_is_bucket_of_weighted_sum_witness:
  "header_set headers_hsts_csp ''strict-transport-security'' \<and>
   header_set headers_hsts_csp ''content-security-policy'' \<and>
   strictTransportSecurity (analyzeSecurityHeaders headers_hsts_csp) \<and>
   contentSecurityPolicy (analyzeSecurityHeaders headers_hsts_csp) \<and>
   header_score (analyzeSecurityHeaders headers_hsts_csp) = 45 \<and>
   headers_grade (analyzeSecurityHeaders headers_hsts_csp) = D"
proof -
  have flags: "header_set headers_hsts_csp ''strict-transport-security'' \<and>
      header_set headers_hsts_csp ''content-security-policy'' \<and>
      \<not> header_set headers_hsts_csp ''x-frame-options'' \<and>
      \<not> header_set headers_hsts_csp ''x-content-type-options'' \<and>
      \<not> header_set headers_hsts_csp ''referrer-policy'' \<and>
      \<not> header_set headers_hsts_csp ''permissions-policy''"
    by code_simp
  with header_grade_is_bucket_of_weighted_sum [of headers_hsts_csp]
  show ?thesis unfolding Let_def by auto
qed

section \<open>Facts about the TLS results of a run\<close>

lemma analyzeSSL_invariant:
  "analyzeSSL response url = Inr r \<Longrightarrow> tls_invariant r"
  by (auto simp add: analyzeSSL_def tls_invariant_def await_def Let_def split: if_splits sum.splits)

lemma analyzeSSL_not_https:
  "\<not> startsWith url ''https://'' \<Longrightarrow>
   analyzeSSL response url =
     Inr \<lparr> enabled = False, protocol = None, validCertificate = None, issuer = None,
           ssl_grade = F, issues = [''CRITICAL: Login page not served over HTTPS''] \<rparr>"
  by (simp add: analyzeSSL_def push_def)

lemma failedResult_ssl:
  "ssl (failedResult env bank e) =
     \<lparr> enabled = False, protocol = None, validCertificate = None, issuer = None,
       ssl_grade = F, issues = [''Audit failed''] \<rparr>"
  by (simp add: failedResult_def)

lemma failedResult_fields:
  "status (failedResult env bank e) = failed \<and> riskScore (failedResult env bank e) = 100 \<and>
   error (failedResult env bank e) = Some (message e)"
  by (simp add: failedResult_def)

lemma auditBank_persists:
  "\<exists>new. auditsCollection (snd (auditBank env c v w)) = auditsCollection w @ new \<and>
         length new \<le> 1 \<and> (\<forall>a\<in>set new. tls_invariant (ssl a)) \<and>
         (\<forall>a. fst (auditBank env c v w) = Inr a \<longrightarrow> new = [a])"
proof (cases "getBankByCode env c w")
  case (Pair r w0)
  then have w0: "w0 = w" by (rule getBankByCode_world)
  show ?thesis
  proof (cases r)
    case (Inl e)
    with Pair have "auditBank env c v w = (Inl e, w)"
      using auditBank_unresolved w0 by simp
    then show ?thesis by simp
  next
    case (Inr bank)
    with Pair w0 have g: "getBankByCode env c w = (Inr bank, w)" by simp
    show ?thesis
    proof (cases "launch_outcome env")
      case (Some e)
      from auditBank_launch_fails [OF g Some] show ?thesis by simp
    next
      case None
      obtain r1 w1 where t: "tryBlock env bank (w\<lparr>calls := calls w @ [Launch]\<rparr>) = (r1, w1)"
        by (cases "tryBlock env bank (w\<lparr>calls := calls w @ [Launch]\<rparr>)")
      show ?thesis
      proof (cases r1)
        case (Inl e)
        with t have t': "tryBlock env bank (w\<lparr>calls := calls w @ [Launch]\<rparr>) = (Inl e, w1)" by simp
        from tryBlock_error [OF t'] have a: "auditsCollection w1 = auditsCollection w" by simp
        have inv: "tls_invariant (ssl (failedResult env bank e))"
          by (simp add: failedResult_ssl tls_invariant_def)
        from auditBank_try_error [OF g None t'] a inv show ?thesis
          by (cases "insertOne_outcome env (failedResult env bank e)") simp_all
      next
        case (Inr a)
        with t have t': "tryBlock env bank (w\<lparr>calls := calls w @ [Launch]\<rparr>) = (Inr a, w1)" by simp
        from tryBlock_ok [OF t'] obtain resp where
          a: "auditsCollection w1 = auditsCollection w @ [a]"
          and s: "analyzeSSL resp (bank_loginUrl bank) = Inr (ssl a)" by auto
        from s have inv: "tls_invariant (ssl a)" by (rule analyzeSSL_invariant)
        from auditBank_try_ok [OF g None t'] a inv show ?thesis
          by (cases "close_outcome env") simp_all
      qed
    qed
  qed
qed

section \<open>The claim about the TLS invariant\<close>

text \<open>
  C7. Every TLS result the system produces satisfies the invariant that a result which
  is not enabled has grade F: every result of the TLS inspector does; for a URL that does
  not start with \<open>https://\<close> (so for every URL whose scheme is not https) the inspector
  returns, whatever the response is and even when reading its security details would
  throw, the result that is not enabled, has grade F and carries one issue; the TLS
  result inside a failed audit result is not enabled and has grade F; and an audit run
  keeps the invariant on the stored audit results and on the result it returns.
\<close>

theorem tls_disabled_implies_grade_F:
  "(\<forall>r. analyzeSSL response url = Inr r \<longrightarrow> tls_invariant r) \<and>
   (\<not> startsWith url ''https://'' \<longrightarrow>
      analyzeSSL response url =
        Inr \<lparr> enabled = False, protocol = None, validCertificate = None, issuer = None,
              ssl_grade = F, issues = [''CRITICAL: Login page not served over HTTPS''] \<rparr>) \<and>
   \<not> enabled (ssl (failedResult env bank e)) \<and>
   ssl_grade (ssl (failedResult env bank e)) = F \<and>
   ((\<forall>a\<in>set (auditsCollection w). tls_invariant (ssl a)) \<longrightarrow>
      (\<forall>a\<in>set (auditsCollection (snd (auditBank env c v w))). tls_invariant (ssl a))) \<and>
   (\<forall>a. fst (auditBank env c v w) = Inr a \<longrightarrow> tls_invariant (ssl a))"
proof -
  from auditBank_persists [of env c v w] obtain new where
    n: "auditsCollection (snd (auditBank env c v w)) = auditsCollection w @ new"
       "\<forall>a\<in>set new. tls_invariant (ssl a)"
       "\<forall>a. fst (auditBank env c v w) = Inr a \<longrightarrow> new = [a]"
    by blast
  have p: "(\<forall>a\<in>set (auditsCollection w). tls_invariant (ssl a)) \<longrightarrow>
      (\<forall>a\<in>set (auditsCollection (snd (auditBank env c v w))). tls_invariant (ssl a))"
    using n(1,2) by auto
  have q: "\<forall>a. fst (auditBank env c v w) = Inr a \<longrightarrow> tls_invariant (ssl a)"
    using n(2,3) by auto
  show ?thesis
    using p q analyzeSSL_invariant [of response url] analyzeSSL_not_https [of url response]
    by (simp add: failedResult_ssl)
qed

theorem tls_disabled_implies_grade_F_witness:
  "analyzeSSL response_no_method ''http://test.com'' =
     Inr \<lparr> enabled = False, protocol = None, validCertificate = None, issuer = None,
           ssl_grade = F, issues = [''CRITICAL: Login page not served over HTTPS''] \<rparr> \<and>
   tls_invariant \<lparr> enabled = False, protocol = None, validCertificate = None, issuer = None,
           ssl_grade = F, issues = [''CRITICAL: Login page not served over HTTPS''] \<rparr> \<and>
   ssl_grade (ssl (failedResult env_navigation_timeout bank_t1 (Error ''Navigation timeout of 30000 ms exceeded''))) = F"
proof -
  have h: "\<not> startsWith ''http://test.com'' ''https://''" by simp
  note t = tls_disabled_implies_grade_F [of response_no_method "''http://test.com''"
      env_navigation_timeout bank_t1 "Error ''Navigation timeout of 30000 ms exceeded''" world0 "''T1''" False]
  from t h have 1: "analyzeSSL response_no_method ''http://test.com'' =
     Inr \<lparr> enabled = False, protocol = None, validCertificate = None, issuer = None,
           ssl_grade = F, issues = [''CRITICAL: Login page not served over HTTPS''] \<rparr>"
    by blast
  from t 1 have 2: "tls_invariant \<lparr> enabled = False, protocol = None, validCertificate = None, issuer = None,
           ssl_grade = F, issues = [''CRITICAL: Login page not served over HTTPS''] \<rparr>"
    by blast
  from t have 3: "ssl_grade (ssl (failedResult env_navigation_timeout bank_t1 (Error ''Navigation timeout of 30000 ms exceeded''))) = F"
    by blast
  from 1 2 3 show ?thesis by blast
qed

section \<open>The claim about the authentication inspector\<close>

lemma page_ok_auth:
  "analyzeAuthentication page_ok =
     Inr \<lparr> methods = [''username-password''], mfaAvailable = True,
           mfaTypes = [''Detected via page content analysis''], passwordRequirements = [],
           sessionManagement = \<lparr> session_timeout = None, secureFlag = Some True,
                                 httpOnlyFlag = Some False \<rparr>,
           auth_grade = A \<rparr>"
  by code_simp

text \<open>
  C6. Whenever the authentication inspector returns a result, its grade is A if and only
  if the list of detected methods is not empty and MFA is available; it is C when the
  list is not empty and MFA is not available; and it is F when no method was detected.
\<close>

theorem auth_grade_from_methods_and_mfa:
  assumes "analyzeAuthentication page = Inr r"
  shows "(auth_grade r = A \<longleftrightarrow> methods r \<noteq> [] \<and> mfaAvailable r) \<and>
         (methods r \<noteq> [] \<and> \<not> mfaAvailable r \<longrightarrow> auth_grade r = C) \<and>
         (methods r = [] \<longrightarrow> auth_grade r = F) \<and>
         auth_grade r = (if methods r \<noteq> [] \<and> mfaAvailable r then A
                         else if methods r \<noteq> [] then C else F)"
  using assms
  by (auto simp add: analyzeAuthentication_def await_def Let_def push_def
        split: sum.splits if_splits)

theorem auth_grade_from_methods_and_mfa_witness:
  "\<exists>r. analyzeAuthentication page_ok = Inr r \<and> methods r = [''username-password''] \<and>
       mfaAvailable r \<and> auth_grade r = A"
proof -
  let ?r = "\<lparr> methods = [''username-password''], mfaAvailable = True,
           mfaTypes = [''Detected via page content analysis''], passwordRequirements = [],
           sessionManagement = \<lparr> session_timeout = None, secureFlag = Some True,
                                 httpOnlyFlag = Some False \<rparr>,
           auth_grade = A \<rparr>"
  have e: "analyzeAuthentication page_ok = Inr ?r" by (rule page_ok_auth)
  from auth_grade_from_methods_and_mfa [OF e] have "auth_grade ?r = A" by simp
  with e show ?thesis by simp
qed

section \<open>The claim about the CSRF inspector\<close>

text \<open>
  C8, as stated, fails: on a page whose first matching input element is found and has
  the empty string as its value, the inspector reports no token and grade F.
\<close>

theorem csrf_empty_token_counterexample:
  "page_first_value page_empty_token SEL_CSRF = Inr (Some []) \<and>
   analyzeCSRF page_empty_token =
     Inr \<lparr> tokenPresent = False, tokenType = None, tokenValue = None,
           isProtected = False, csrf_grade = F \<rparr>"
  by (simp add: analyzeCSRF_def dollar_eval_value_def page_empty_token_def page_ok_def)

text \<open>
  C8, amended. For every page the CSRF inspector returns a result and never an
  exception. The token is present exactly when the first input element matching the
  CSRF selector is found and its value is not the empty string; \<open>isProtected\<close> equals
  \<open>tokenPresent\<close>, and the grade is A when the token is present and F otherwise
  (element absent, empty value, or any error of the lookup).
\<close>

theorem csrf_protected_iff_nonempty_token:
  "\<exists>r. analyzeCSRF page = Inr r \<and>
       tokenPresent r = (\<exists>v. page_first_value page SEL_CSRF = Inr (Some v) \<and> v \<noteq> []) \<and>
       isProtected r = tokenPresent r \<and>
       csrf_grade r = (if tokenPresent r then A else F)"
  by (auto simp add: analyzeCSRF_def dollar_eval_value_def Let_def
        split: sum.splits option.splits)

section \<open>The claim about an unknown bank code\<close>

text \<open>
  C10. When no bank has the given code (in upper case), the audit raises the not-found
  exception (or the rejection of the database query, when the query itself rejects)
  and leaves the state as it was: no browser is launched, so the list of calls has no
  new \<open>Launch\<close>, and no audit result is stored.
\<close>

theorem unknown_bank_opens_no_session:
  assumes "find (\<lambda>b. bank_code b = toUpperCase c) (banksCollection w) = None"
  shows "auditBank env c v w =
           (Inl (case findOne_outcome env of
                   Some e \<Rightarrow> e
                 | None \<Rightarrow> NotFoundException (''Bank with code '' @ c @ '' not found'')), w) \<and>
         (findOne_outcome env = None \<longrightarrow>
            fst (auditBank env c v w) =
              Inl (NotFoundException (''Bank with code '' @ c @ '' not found''))) \<and>
         calls (snd (auditBank env c v w)) = calls w \<and>
         auditsCollection (snd (auditBank env c v w)) = auditsCollection w"
  using auditBank_unresolved [OF getBankByCode_missing [OF assms], of env v] by simp

theorem unknown_bank_opens_no_session_witness:
  "auditBank env_ok ''XX'' False world0 =
     (Inl (NotFoundException ''Bank with code XX not found''), world0) \<and>
   calls (snd (auditBank env_ok ''XX'' False world0)) = [] \<and>
   auditsCollection (snd (auditBank env_ok ''XX'' False world0)) = []"
proof -
  have h: "find (\<lambda>b. bank_code b = toUpperCase ''XX'') (banksCollection world0) = None"
    by (simp add: world0_def bank_t1_def toUpperCase_def lower_letters_def upper_letters_def)
  from unknown_bank_opens_no_session [OF h, of env_ok False]
  show ?thesis by (simp add: env_ok_def world0_def)
qed

section \<open>Facts about the concrete runs\<close>

lemma world0_find_t1:
  "find (\<lambda>b. bank_code b = toUpperCase ''T1'') (banksCollection world0) = Some bank_t1"
  by (simp add: world0_def bank_t1_def toUpperCase_def lower_letters_def upper_letters_def)

lemma response_ok_ssl:
  "analyzeSSL response_ok (bank_loginUrl bank_t1) =
     Inr \<lparr> enabled = True, protocol = Some ''TLS 1.3'', validCertificate = Some True,
           issuer = Some ''Test CA'', ssl_grade = A_plus, issues = [] \<rparr>"
  by (simp add: analyzeSSL_def await_def response_ok_def bank_t1_def)

lemma response_no_method_ssl:
  "analyzeSSL response_no_method (bank_loginUrl bank_t1) =
     Inl (Error ''response.securityDetails is not a function'')"
  by (simp add: analyzeSSL_def await_def response_no_method_def bank_t1_def)

lemma page_content_rejects_auth:
  "analyzeAuthentication page_content_rejects = Inl (Error ''Execution context was destroyed'')"
  by (simp add: analyzeAuthentication_def await_def page_content_rejects_def page_ok_def)

section \<open>The claim about the failure path\<close>

text \<open>
  C2, as stated, fails for a browser launch error: \<open>launchBrowser\<close> is awaited before
  the \<open>try\<close> block, so its error leaves \<open>auditBank\<close> with no audit result stored
  (and with no browser to close).
\<close>

theorem launch_failure_counterexample:
  "fst (auditBank env_launch_fails ''T1'' False world0) =
     Inl (Error ''Failed to launch the browser process'') \<and>
   auditsCollection (snd (auditBank env_launch_fails ''T1'' False world0)) = [] \<and>
   calls (snd (auditBank env_launch_fails ''T1'' False world0)) = [Launch]"
proof -
  have f: "findOne_outcome env_launch_fails = None"
    by (simp add: env_launch_fails_def env_ok_def)
  have l: "launch_outcome env_launch_fails = Some (Error ''Failed to launch the browser process'')"
    by (simp add: env_launch_fails_def env_ok_def)
  from auditBank_launch_fails [OF getBankByCode_found [OF f world0_find_t1] l, of False]
  show ?thesis by (simp add: world0_def)
qed

text \<open>
  C2, amended. For every error raised inside the \<open>try\<close> block, that is after the
  target was resolved and the browser was launched (page set-up, navigation, missing
  response, extraction, storing the completed result), \<open>auditBank\<close> builds one failed
  result with status failed, risk score 100 and the message of the error, and inserts
  it: when the insert succeeds, exactly this one result is added to the stored audits
  (none when the insert itself rejects). The error is raised again to the caller once
  the failed result is stored and the browser is closed (a rejection of the insert or
  of the close is raised in its place). The browser is closed exactly once on this path,
  as the last call.
\<close>

theorem error_in_try_block_records_failed_result:
  assumes "findOne_outcome env = None"
      and "find (\<lambda>b. bank_code b = toUpperCase c) (banksCollection w) = Some bank"
      and "launch_outcome env = None"
      and "tryBlock env bank (w\<lparr>calls := calls w @ [Launch]\<rparr>) = (Inl e, w1)"
  shows "status (failedResult env bank e) = failed \<and>
         riskScore (failedResult env bank e) = 100 \<and>
         error (failedResult env bank e) = Some (message e) \<and>
         auditsCollection (snd (auditBank env c v w)) =
           (case insertOne_outcome env (failedResult env bank e) of
              None \<Rightarrow> auditsCollection w @ [failedResult env bank e]
            | Some ie \<Rightarrow> auditsCollection w) \<and>
         fst (auditBank env c v w) =
           Inl (case close_outcome env of
                  Some ce \<Rightarrow> ce
                | None \<Rightarrow> (case insertOne_outcome env (failedResult env bank e) of
                              Some ie \<Rightarrow> ie
                            | None \<Rightarrow> e)) \<and>
         (insertOne_outcome env (failedResult env bank e) = None \<and> close_outcome env = None
            \<longrightarrow> fst (auditBank env c v w) = Inl e \<and>
                auditsCollection (snd (auditBank env c v w)) =
                  auditsCollection w @ [failedResult env bank e]) \<and>
         calls (snd (auditBank env c v w)) = calls w1 @ [Close] \<and>
         count_list (calls (snd (auditBank env c v w))) Close = count_list (calls w) Close + 1"
proof -
  note g = getBankByCode_found [OF assms(1,2)]
  note a = auditBank_try_error [OF g assms(3,4), of v]
  from tryBlock_error [OF assms(4)] obtain cs where
    w1: "auditsCollection w1 = auditsCollection w"
    and cs: "calls w1 = calls w @ [Launch] @ cs" "Close \<notin> set cs"
    by auto
  have cnt: "count_list (calls w1 @ [Close]) Close = count_list (calls w) Close + 1"
    using cs by (simp add: count_list_0_iff [THEN iffD2])
  show ?thesis
    using a w1 cnt
    by (cases "insertOne_outcome env (failedResult env bank e)")
       (simp_all add: failedResult_fields)
qed

theorem error_in_try_block_records_failed_result_witness:
  "fst (auditBank env_navigation_timeout ''T1'' False world0) =
     Inl (Error ''Navigation timeout of 30000 ms exceeded'') \<and>
   auditsCollection (snd (auditBank env_navigation_timeout ''T1'' False world0)) =
     [failedResult env_navigation_timeout bank_t1
        (Error ''Navigation timeout of 30000 ms exceeded'')] \<and>
   status (failedResult env_navigation_timeout bank_t1
        (Error ''Navigation timeout of 30000 ms exceeded'')) = failed \<and>
   riskScore (failedResult env_navigation_timeout bank_t1
        (Error ''Navigation timeout of 30000 ms exceeded'')) = 100 \<and>
   error (failedResult env_navigation_timeout bank_t1
        (Error ''Navigation timeout of 30000 ms exceeded'')) =
     Some ''Navigation timeout of 30000 ms exceeded'' \<and>
   calls (snd (auditBank env_navigation_timeout ''T1'' False world0)) = [Launch, Close]"
proof -
  let ?env = env_navigation_timeout
  let ?e = "Error ''Navigation timeout of 30000 ms exceeded''"
  have f: "findOne_outcome ?env = None" and l: "launch_outcome ?env = None"
    and i: "insertOne_outcome ?env (failedResult ?env bank_t1 ?e) = None"
    and c: "close_outcome ?env = None"
    by (simp_all add: env_navigation_timeout_def env_ok_def)
  have t: "tryBlock ?env bank_t1 (world0\<lparr>calls := calls world0 @ [Launch]\<rparr>) =
      (Inl ?e, world0\<lparr>calls := calls world0 @ [Launch]\<rparr>)"
    by (rule tryBlock_goto_fails [where page = page_ok])
       (simp_all add: env_navigation_timeout_def env_ok_def)
  from error_in_try_block_records_failed_result [OF f world0_find_t1 l t, of False] i c
  show ?thesis by (simp add: world0_def)
qed

section \<open>The claim about extractor failures\<close>

text \<open>
  C1, as stated, fails: when \<open>page.content()\<close> rejects after a successful navigation,
  the authentication extractor throws, the CSRF extractor is never called, and the run
  ends with the error and a failed audit result instead of a completed one.
\<close>

theorem authentication_failure_counterexample:
  "fst (auditBank env_content_rejects ''T1'' False world0) =
     Inl (Error ''Execution context was destroyed'') \<and>
   AnalyzeCSRF \<notin> set (calls (snd (auditBank env_content_rejects ''T1'' False world0))) \<and>
   map status (auditsCollection (snd (auditBank env_content_rejects ''T1'' False world0))) =
     [failed]"
proof -
  let ?env = env_content_rejects
  have f: "findOne_outcome ?env = None" and l: "launch_outcome ?env = None"
    by (simp_all add: env_content_rejects_def env_ok_def)
  have t: "tryBlock ?env bank_t1 (world0\<lparr>calls := calls world0 @ [Launch]\<rparr>) =
      (Inl (Error ''Execution context was destroyed''),
       world0\<lparr>calls := calls world0 @ [Launch]\<rparr>
         \<lparr>calls := calls (world0\<lparr>calls := calls world0 @ [Launch]\<rparr>) @
            [AnalyzeSSL, AnalyzeSecurityHeaders, AnalyzeAuthentication]\<rparr>)"
    by (rule tryBlock_auth_throws [where page = page_content_rejects and resp = response_ok,
          OF _ _ _ _ response_ok_ssl page_content_rejects_auth])
       (simp_all add: env_content_rejects_def env_ok_def)
  from auditBank_try_error [OF getBankByCode_found [OF f world0_find_t1] l t, of False]
  show ?thesis
    by (simp add: world0_def env_content_rejects_def env_ok_def failedResult_fields)
qed

text \<open>
  C1, amended. For every run in which navigation succeeded, the four extractors are
  called one after the other (TLS, headers, authentication, CSRF) inside the one
  \<open>try\<close> block, with no isolation between them. When the TLS extractor throws, no
  other extractor is called; when the authentication extractor throws, the CSRF
  extractor is not called. In both cases the run is aborted through the failure path
  and completes no audit: it inserts the failed audit result (status failed, risk score
  100, the message of the extractor's error, all four grades F), which is stored when
  that insert succeeds and is not stored when that insert rejects; it closes the
  browser; and it raises an error, which is the extractor's error when the insert and
  the close succeed, and otherwise the rejection of the close or else of the insert.
  When neither of the two extractors throws, all four are called. The CSRF extractor
  itself always returns a result.
\<close>

theorem extractor_failure_aborts_audit:
  assumes "findOne_outcome env = None"
      and "find (\<lambda>b. bank_code b = toUpperCase c) (banksCollection w) = Some bank"
      and "launch_outcome env = None"
      and "newPage_outcome env = Inr page"
      and "setUserAgent_outcome env = None"
      and "setRequestInterception_outcome env = None"
      and "goto_outcome env = Inr (Some resp, observed)"
  shows "(\<forall>e. analyzeSSL resp (bank_loginUrl bank) = Inl e \<longrightarrow>
            auditBank env c v w =
              (Inl (case close_outcome env of
                      Some ce \<Rightarrow> ce
                    | None \<Rightarrow> (case insertOne_outcome env (failedResult env bank e) of
                                  Some ie \<Rightarrow> ie
                                | None \<Rightarrow> e)),
               w\<lparr>auditsCollection :=
                    (case insertOne_outcome env (failedResult env bank e) of
                       Some ie \<Rightarrow> auditsCollection w
                     | None \<Rightarrow> auditsCollection w @ [failedResult env bank e]),
                  calls := calls w @ [Launch, AnalyzeSSL, Close]\<rparr>) \<and>
            calls (snd (auditBank env c v w)) = calls w @ [Launch, AnalyzeSSL, Close] \<and>
            (\<exists>e1. fst (auditBank env c v w) = Inl e1) \<and>
            (insertOne_outcome env (failedResult env bank e) = None \<longrightarrow>
               auditsCollection (snd (auditBank env c v w)) =
                 auditsCollection w @ [failedResult env bank e]) \<and>
            (insertOne_outcome env (failedResult env bank e) = None \<and>
             close_outcome env = None \<longrightarrow> fst (auditBank env c v w) = Inl e)) \<and>
         (\<forall>s e. analyzeSSL resp (bank_loginUrl bank) = Inr s \<and>
                analyzeAuthentication page = Inl e \<longrightarrow>
            auditBank env c v w =
              (Inl (case close_outcome env of
                      Some ce \<Rightarrow> ce
                    | None \<Rightarrow> (case insertOne_outcome env (failedResult env bank e) of
                                  Some ie \<Rightarrow> ie
                                | None \<Rightarrow> e)),
               w\<lparr>auditsCollection :=
                    (case insertOne_outcome env (failedResult env bank e) of
                       Some ie \<Rightarrow> auditsCollection w
                     | None \<Rightarrow> auditsCollection w @ [failedResult env bank e]),
                  calls := calls w @ [Launch, AnalyzeSSL, AnalyzeSecurityHeaders,
                                      AnalyzeAuthentication, Close]\<rparr>) \<and>
            calls (snd (auditBank env c v w)) =
              calls w @ [Launch, AnalyzeSSL, AnalyzeSecurityHeaders, AnalyzeAuthentication,
                         Close] \<and>
            (\<exists>e1. fst (auditBank env c v w) = Inl e1) \<and>
            (insertOne_outcome env (failedResult env bank e) = None \<longrightarrow>
               auditsCollection (snd (auditBank env c v w)) =
                 auditsCollection w @ [failedResult env bank e]) \<and>
            (insertOne_outcome env (failedResult env bank e) = None \<and>
             close_outcome env = None \<longrightarrow> fst (auditBank env c v w) = Inl e)) \<and>
         (\<forall>s a. analyzeSSL resp (bank_loginUrl bank) = Inr s \<and>
                analyzeAuthentication page = Inr a \<longrightarrow>
            calls (snd (auditBank env c v w)) =
              calls w @ [Launch, AnalyzeSSL, AnalyzeSecurityHeaders, AnalyzeAuthentication,
                         AnalyzeCSRF, Close]) \<and>
         (\<forall>e. status (failedResult env bank e) = failed \<and>
              riskScore (failedResult env bank e) = 100 \<and>
              error (failedResult env bank e) = Some (message e) \<and>
              ssl_grade (ssl (failedResult env bank e)) = F \<and>
              headers_grade (headers (failedResult env bank e)) = F \<and>
              auth_grade (authentication (failedResult env bank e)) = F \<and>
              csrf_grade (csrf (failedResult env bank e)) = F) \<and>
         (\<exists>r. analyzeCSRF page = Inr r)"
proof -
  note g = getBankByCode_found [OF assms(1,2)]
  let ?w = "w\<lparr>calls := calls w @ [Launch]\<rparr>"
  have ssl_eq: "auditBank env c v w =
      (Inl (case close_outcome env of
              Some ce \<Rightarrow> ce
            | None \<Rightarrow> (case insertOne_outcome env (failedResult env bank e) of
                          Some ie \<Rightarrow> ie
                        | None \<Rightarrow> e)),
       w\<lparr>auditsCollection :=
            (case insertOne_outcome env (failedResult env bank e) of
               Some ie \<Rightarrow> auditsCollection w
             | None \<Rightarrow> auditsCollection w @ [failedResult env bank e]),
          calls := calls w @ [Launch, AnalyzeSSL, Close]\<rparr>)"
    if s: "analyzeSSL resp (bank_loginUrl bank) = Inl e" for e
  proof -
    note t = tryBlock_ssl_throws [OF assms(4-7) s, of ?w]
    from auditBank_try_error [OF g assms(3) t, of v] show ?thesis
      by (simp split: option.splits)
  qed
  have auth_eq: "auditBank env c v w =
      (Inl (case close_outcome env of
              Some ce \<Rightarrow> ce
            | None \<Rightarrow> (case insertOne_outcome env (failedResult env bank e) of
                          Some ie \<Rightarrow> ie
                        | None \<Rightarrow> e)),
       w\<lparr>auditsCollection :=
            (case insertOne_outcome env (failedResult env bank e) of
               Some ie \<Rightarrow> auditsCollection w
             | None \<Rightarrow> auditsCollection w @ [failedResult env bank e]),
          calls := calls w @ [Launch, AnalyzeSSL, AnalyzeSecurityHeaders,
                              AnalyzeAuthentication, Close]\<rparr>)"
    if s: "analyzeSSL resp (bank_loginUrl bank) = Inr s"
      and a: "analyzeAuthentication page = Inl e" for s e
  proof -
    note t = tryBlock_auth_throws [OF assms(4-7) s a, of ?w]
    from auditBank_try_error [OF g assms(3) t, of v] show ?thesis
      by (simp split: option.splits)
  qed
  have ssl_case: "calls (snd (auditBank env c v w)) = calls w @ [Launch, AnalyzeSSL, Close] \<and>
            (\<exists>e1. fst (auditBank env c v w) = Inl e1) \<and>
            (insertOne_outcome env (failedResult env bank e) = None \<longrightarrow>
               auditsCollection (snd (auditBank env c v w)) =
                 auditsCollection w @ [failedResult env bank e]) \<and>
            (insertOne_outcome env (failedResult env bank e) = None \<and>
             close_outcome env = None \<longrightarrow> fst (auditBank env c v w) = Inl e)"
    if s: "analyzeSSL resp (bank_loginUrl bank) = Inl e" for e
    using ssl_eq [OF s] by simp
  have auth_case: "calls (snd (auditBank env c v w)) =
              calls w @ [Launch, AnalyzeSSL, AnalyzeSecurityHeaders, AnalyzeAuthentication,
                         Close] \<and>
            (\<exists>e1. fst (auditBank env c v w) = Inl e1) \<and>
            (insertOne_outcome env (failedResult env bank e) = None \<longrightarrow>
               auditsCollection (snd (auditBank env c v w)) =
                 auditsCollection w @ [failedResult env bank e]) \<and>
            (insertOne_outcome env (failedResult env bank e) = None \<and>
             close_outcome env = None \<longrightarrow> fst (auditBank env c v w) = Inl e)"
    if s: "analyzeSSL resp (bank_loginUrl bank) = Inr s"
      and a: "analyzeAuthentication page = Inl e" for s e
    using auth_eq [OF s a] by simp
  have ok_case: "calls (snd (auditBank env c v w)) =
              calls w @ [Launch, AnalyzeSSL, AnalyzeSecurityHeaders, AnalyzeAuthentication,
                         AnalyzeCSRF, Close]"
    if s: "analyzeSSL resp (bank_loginUrl bank) = Inr s"
      and a: "analyzeAuthentication page = Inr a" for s a
  proof -
    from tryBlock_extracted [OF assms(4-7) s a, of ?w] obtain r w1 where
      t: "tryBlock env bank ?w = (r, w1)"
      and cs: "calls w1 = calls ?w @ [AnalyzeSSL, AnalyzeSecurityHeaders,
                 AnalyzeAuthentication, AnalyzeCSRF]"
      by blast
    show ?thesis
    proof (cases r)
      case (Inl e)
      with t have "tryBlock env bank ?w = (Inl e, w1)" by simp
      from auditBank_try_error [OF g assms(3) this, of v] cs show ?thesis by simp
    next
      case (Inr x)
      with t have "tryBlock env bank ?w = (Inr x, w1)" by simp
      from auditBank_try_ok [OF g assms(3) this, of v] cs show ?thesis by simp
    qed
  qed
  have fields: "status (failedResult env bank e) = failed \<and>
              riskScore (failedResult env bank e) = 100 \<and>
              error (failedResult env bank e) = Some (message e) \<and>
              ssl_grade (ssl (failedResult env bank e)) = F \<and>
              headers_grade (headers (failedResult env bank e)) = F \<and>
              auth_grade (authentication (failedResult env bank e)) = F \<and>
              csrf_grade (csrf (failedResult env bank e)) = F" for e
    by (simp add: failedResult_def)
  from ssl_eq ssl_case auth_eq auth_case ok_case fields analyzeCSRF_total [of page]
  show ?thesis by blast
qed

theorem extractor_failure_aborts_audit_witness:
  "calls (snd (auditBank env_ssl_throws ''T1'' False world0)) = [Launch, AnalyzeSSL, Close] \<and>
   fst (auditBank env_ssl_throws ''T1'' False world0) =
     Inl (Error ''response.securityDetails is not a function'') \<and>
   auditsCollection (snd (auditBank env_ssl_throws ''T1'' False world0)) =
     [failedResult env_ssl_throws bank_t1
        (Error ''response.securityDetails is not a function'')]"
proof -
  let ?env = env_ssl_throws
  let ?e = "Error ''response.securityDetails is not a function''"
  have h: "findOne_outcome ?env = None" "launch_outcome ?env = None"
    "newPage_outcome ?env = Inr page_ok" "setUserAgent_outcome ?env = None"
    "setRequestInterception_outcome ?env = None"
    "goto_outcome ?env = Inr (Some response_no_method, [])"
    by (simp_all add: env_ssl_throws_def env_ok_def)
  have i: "insertOne_outcome ?env (failedResult ?env bank_t1 ?e) = None"
    and c: "close_outcome ?env = None"
    by (simp_all add: env_ssl_throws_def env_ok_def)
  note t = extractor_failure_aborts_audit [OF h(1) world0_find_t1 h(2-6), of False]
  from t response_no_method_ssl
  have "calls (snd (auditBank ?env ''T1'' False world0)) =
      calls world0 @ [Launch, AnalyzeSSL, Close] \<and>
    (insertOne_outcome ?env (failedResult ?env bank_t1 ?e) = None \<longrightarrow>
       auditsCollection (snd (auditBank ?env ''T1'' False world0)) =
         auditsCollection world0 @ [failedResult ?env bank_t1 ?e]) \<and>
    (insertOne_outcome ?env (failedResult ?env bank_t1 ?e) = None \<and>
     close_outcome ?env = None \<longrightarrow> fst (auditBank ?env ''T1'' False world0) = Inl ?e)"
    by blast
  with i c show ?thesis by (simp add: world0_def)
qed

end
